theory Spec2Isabelle
  imports Complex_Main "HOL-Library.AList"
begin

chapter \<open>CloudPulse client layer: definitions\<close>

text \<open>
  Strings are byte strings (UTF-8), as they travel in URLs and request bodies.
  Exceptions and rejected promises are the \<open>Inl\<close> side of a sum.
\<close>


section \<open>JavaScript values and strings\<close>

text \<open>
  A parsed JSON value. Numbers are the integers (page numbers, limits, status codes);
  an object is its list of properties in order, with distinct keys. JavaScript's
  \<open>undefined\<close> is the \<open>None\<close> of an option around the value.
\<close>

datatype json =
    JNull
  | JBool bool
  | JNum int
  | JStr string
  | JArr "json list"
  | JObj "(string \<times> json) list"

text \<open>ToBoolean, as \<open>if (x)\<close>, \<open>x ? a : b\<close>, \<open>x || y\<close> and \<open>!!x\<close> apply it.\<close>

fun truthy :: "json \<Rightarrow> bool" where
  "truthy JNull = False"
| "truthy (JBool b) = b"
| "truthy (JNum n) = (n \<noteq> 0)"
| "truthy (JStr s) = (s \<noteq> [])"
| "truthy (JArr xs) = True"
| "truthy (JObj fs) = True"

definition truthy_opt :: "json option \<Rightarrow> bool" where
  "truthy_opt v = (case v of None \<Rightarrow> False | Some j \<Rightarrow> truthy j)"

text \<open>Property access \<open>x.k\<close> on a value that is not null: \<open>undefined\<close> unless \<open>x\<close> is an
  object that has the key.\<close>

fun get_prop :: "json \<Rightarrow> string \<Rightarrow> json option" where
  "get_prop (JObj fs) k = map_of fs k"
| "get_prop j k = None"

definition digit_char :: "nat \<Rightarrow> char" where
  "digit_char d = ''0123456789'' ! (d mod 10)"

fun show_nat :: "nat \<Rightarrow> string" where
  "show_nat n = (if n < 10 then [digit_char n] else show_nat (n div 10) @ [digit_char (n mod 10)])"

declare show_nat.simps [simp del]

definition show_int :: "int \<Rightarrow> string" where
  "show_int i = (if i < 0 then CHR ''-'' # show_nat (nat (- i)) else show_nat (nat i))"

fun join :: "string \<Rightarrow> string list \<Rightarrow> string" where
  "join sep [] = []"
| "join sep [x] = x"
| "join sep (x # y # ys) = x @ sep @ join sep (y # ys)"

text \<open>\<open>String(v)\<close> and template interpolation; inside an array, \<open>null\<close> prints as nothing.\<close>

primrec js_String :: "json \<Rightarrow> string" where
  "js_String JNull = ''null''"
| "js_String (JBool b) = (if b then ''true'' else ''false'')"
| "js_String (JNum n) = show_int n"
| "js_String (JStr s) = s"
| "js_String (JArr xs) =
     join '','' (map (\<lambda>(x, s). if x = JNull then [] else s) (zip xs (map js_String xs)))"
| "js_String (JObj fs) = ''[object Object]''"

definition js_String_opt :: "json option \<Rightarrow> string" where
  "js_String_opt v = (case v of None \<Rightarrow> ''undefined'' | Some j \<Rightarrow> js_String j)"

definition hex_lower :: "nat \<Rightarrow> char" where
  "hex_lower d = ''0123456789abcdef'' ! (d mod 16)"

definition hex_upper :: "nat \<Rightarrow> char" where
  "hex_upper d = ''0123456789ABCDEF'' ! (d mod 16)"

text \<open>\<open>JSON.stringify\<close>: QuoteJSONString escapes the quote, the backslash and the
  control characters; everything else is copied.\<close>

definition quote_char :: "char \<Rightarrow> string" where
  "quote_char c =
     (if c = CHR 0x22 then [CHR 0x5C, CHR 0x22]
      else if c = CHR 0x5C then [CHR 0x5C, CHR 0x5C]
      else if c = CHR 0x08 then [CHR 0x5C, CHR ''b'']
      else if c = CHR 0x0C then [CHR 0x5C, CHR ''f'']
      else if c = CHR 0x0A then [CHR 0x5C, CHR ''n'']
      else if c = CHR 0x0D then [CHR 0x5C, CHR ''r'']
      else if c = CHR 0x09 then [CHR 0x5C, CHR ''t'']
      else if (of_char c :: nat) < 32
        then [CHR 0x5C, CHR ''u'', CHR ''0'', CHR ''0'',
              hex_lower (of_char c div 16), hex_lower (of_char c mod 16)]
      else [c])"

definition QuoteJSONString :: "string \<Rightarrow> string" where
  "QuoteJSONString s = CHR 0x22 # concat (map quote_char s) @ [CHR 0x22]"

text \<open>\<open>JSON.stringify(value, null, gap)\<close> at the current indentation; the empty gap is
  the compact \<open>JSON.stringify(value)\<close>.\<close>

primrec JSON_stringify :: "json \<Rightarrow> string \<Rightarrow> string \<Rightarrow> string" where
  "JSON_stringify JNull gap indent = ''null''"
| "JSON_stringify (JBool b) gap indent = (if b then ''true'' else ''false'')"
| "JSON_stringify (JNum n) gap indent = show_int n"
| "JSON_stringify (JStr s) gap indent = QuoteJSONString s"
| "JSON_stringify (JArr xs) gap indent =
     (if xs = [] then ''[]''
      else if gap = [] then
        ''['' @ join '','' (map (\<lambda>x. JSON_stringify x gap (indent @ gap)) xs) @ '']''
      else ''['' @ [CHR 0x0A] @ indent @ gap
           @ join ('','' @ [CHR 0x0A] @ indent @ gap)
               (map (\<lambda>x. JSON_stringify x gap (indent @ gap)) xs)
           @ [CHR 0x0A] @ indent @ '']'')"
| "JSON_stringify (JObj fs) gap indent =
     (if fs = [] then ''{}''
      else if gap = [] then
        ''{'' @ join '',''
                 (map (\<lambda>(k, v). QuoteJSONString k @ '':'' @ v)
                    (map (map_prod id (\<lambda>x. JSON_stringify x gap (indent @ gap))) fs)) @ ''}''
      else ''{'' @ [CHR 0x0A] @ indent @ gap
           @ join ('','' @ [CHR 0x0A] @ indent @ gap)
               (map (\<lambda>(k, v). QuoteJSONString k @ '': '' @ v)
                  (map (map_prod id (\<lambda>x. JSON_stringify x gap (indent @ gap))) fs))
           @ [CHR 0x0A] @ indent @ ''}'')"





text \<open>What a rejected promise or a \<open>throw\<close> carries: an Error object with its message,
  or any other value.\<close>

datatype thrown =
  Error string | TypeError string | SyntaxError string | RangeError string | NonError json

text \<open>The \<open>message\<close> of an Error object.\<close>

fun message :: "thrown \<Rightarrow> string option" where
  "message (Error m) = Some m"
| "message (TypeError m) = Some m"
| "message (SyntaxError m) = Some m"
| "message (RangeError m) = Some m"
| "message (NonError v) = None"

text \<open>A fetch \<open>Response\<close>: \<open>res.json()\<close> resolves to the parsed body or rejects.\<close>

record response =
  status :: nat
  statusText :: string
  json_body :: "thrown + json"

definition res_ok :: "response \<Rightarrow> bool" where
  "res_ok res \<longleftrightarrow> 200 \<le> status res \<and> status res \<le> 299"

text \<open>The arguments of one \<open>fetch\<close> call.\<close>

record fetch_call =
  fc_url :: string
  fc_method :: "string option"
  fc_headers :: "(string \<times> string) list"
  fc_body :: "string option"

text \<open>\<^verbatim>\<open>await res.json().catch(() => ({ detail: res.statusText }))\<close>\<close>

definition error_payload :: "response \<Rightarrow> json" where
  "error_payload res =
     (case json_body res of
        Inl e \<Rightarrow> JObj [(''detail'', JStr (statusText res))]
      | Inr j \<Rightarrow> j)"


section \<open>The TypeScript and JavaScript SDK clients\<close>

text \<open>
  \<open>URLSearchParams\<close>: the list of pairs, \<open>set\<close>, and \<open>toString\<close>, which is the
  application/x-www-form-urlencoded serializer: letters, digits and \<open>* - . _\<close> are
  kept, a space becomes \<open>+\<close>, every other byte is percent-encoded.
\<close>

type_synonym URLSearchParams = "(string \<times> string) list"

definition urlencoded_keep :: "char \<Rightarrow> bool" where
  "urlencoded_keep c \<longleftrightarrow>
     c \<in> set ''ABCDEFGHIJKLMNOPQRSTUVWXYZabcdefghijklmnopqrstuvwxyz0123456789*-._''"

definition urlencode_byte :: "char \<Rightarrow> string" where
  "urlencode_byte c =
     (if c = CHR '' '' then ''+''
      else if urlencoded_keep c then [c]
      else [CHR ''%'', hex_upper (of_char c div 16), hex_upper (of_char c mod 16)])"

definition urlencode :: "string \<Rightarrow> string" where
  "urlencode s = concat (map urlencode_byte s)"

fun qs_set :: "string \<Rightarrow> string \<Rightarrow> URLSearchParams \<Rightarrow> URLSearchParams" where
  "qs_set k v [] = [(k, v)]"
| "qs_set k v ((k', v') # ps) =
     (if k' = k then (k, v) # filter (\<lambda>p. fst p \<noteq> k) ps else (k', v') # qs_set k v ps)"

definition query_components :: "URLSearchParams \<Rightarrow> string list" where
  "query_components qs = map (\<lambda>(k, v). urlencode k @ ''='' @ urlencode v) qs"

definition qs_toString :: "URLSearchParams \<Rightarrow> string" where
  "qs_toString qs = join ''&'' (query_components qs)"

text \<open>
  A value of the \<open>params\<close> object: a string, a number (an integer: \<open>page\<close>, \<open>limit\<close>),
  \<open>null\<close> or \<open>undefined\<close>. The object itself is the list \<open>Object.entries\<close> gives.
\<close>

datatype param_value = PStr string | PNum int | PNull | PUndefined

type_synonym params = "(string \<times> param_value) list"

fun String_param :: "param_value \<Rightarrow> string" where
  "String_param (PStr s) = s"
| "String_param (PNum n) = show_int n"
| "String_param PNull = ''null''"
| "String_param PUndefined = ''undefined''"

text \<open>\<^verbatim>\<open>.replace(/\/$/, '')\<close>: one slash at the very end is dropped.\<close>

definition strip_trailing_slash :: "string \<Rightarrow> string" where
  "strip_trailing_slash s = (if s \<noteq> [] \<and> last s = CHR ''/'' then butlast s else s)"

record client_options =
  apiToken :: string
  baseUrl :: "string option"

record client =
  client_baseUrl :: string
  client_headers :: "(string \<times> string) list"

text \<open>The TypeScript constructor: \<^verbatim>\<open>options.baseUrl || 'https://api.cloudpulse.dev'\<close>.\<close>

definition ts_CloudPulseClient :: "client_options \<Rightarrow> client" where
  "ts_CloudPulseClient options =
     \<lparr>client_baseUrl =
        strip_trailing_slash
          (case baseUrl options of
             None \<Rightarrow> ''https://api.cloudpulse.dev''
           | Some b \<Rightarrow> if b \<noteq> [] then b else ''https://api.cloudpulse.dev'')
        @ ''/api/v2'',
      client_headers =
        [(''Authorization'', ''Bearer '' @ apiToken options),
         (''Content-Type'', ''application/json''),
         (''User-Agent'', ''cloudpulse-ts/0.1.0'')]\<rparr>"

text \<open>The JavaScript constructor: the default parameter
  \<^verbatim>\<open>{ apiToken, baseUrl = 'https://api.cloudpulse.dev' }\<close> applies to \<open>undefined\<close> only.\<close>

definition js_CloudPulseClient :: "client_options \<Rightarrow> client" where
  "js_CloudPulseClient options =
     \<lparr>client_baseUrl =
        strip_trailing_slash
          (case baseUrl options of
             None \<Rightarrow> ''https://api.cloudpulse.dev''
           | Some b \<Rightarrow> b)
        @ ''/api/v2'',
      client_headers =
        [(''Authorization'', ''Bearer '' @ apiToken options),
         (''Content-Type'', ''application/json''),
         (''User-Agent'', ''cloudpulse-js/0.1.0'')]\<rparr>"

text \<open>The loop over \<open>Object.entries(params)\<close>; TypeScript skips \<open>undefined\<close>, JavaScript
  skips \<open>undefined\<close> and \<open>null\<close>.\<close>

definition ts_query :: "params \<Rightarrow> URLSearchParams" where
  "ts_query entries =
     foldl (\<lambda>qs (k, v). if v \<noteq> PUndefined then qs_set k (String_param v) qs else qs) [] entries"

definition js_query :: "params \<Rightarrow> URLSearchParams" where
  "js_query entries =
     foldl (\<lambda>qs (k, v). if v \<noteq> PUndefined \<and> v \<noteq> PNull then qs_set k (String_param v) qs else qs)
       [] entries"

definition with_query :: "string \<Rightarrow> URLSearchParams \<Rightarrow> string" where
  "with_query url qs = (let qsStr = qs_toString qs in if qsStr \<noteq> [] then url @ ''?'' @ qsStr else url)"

text \<open>\<open>request(method, path, body, params)\<close> up to the \<open>fetch\<close> call. A missing
  \<open>params\<close> or \<open>body\<close> is \<open>None\<close>; JavaScript's \<open>list\<close> passes \<open>null\<close> as body, which is
  falsy like \<open>undefined\<close>.\<close>

definition request_body :: "json option \<Rightarrow> string option" where
  "request_body body =
     (case body of
        None \<Rightarrow> None
      | Some j \<Rightarrow> if truthy j then Some (JSON_stringify j [] []) else None)"

definition ts_request :: "client \<Rightarrow> string \<Rightarrow> string \<Rightarrow> json option \<Rightarrow> params option \<Rightarrow> fetch_call" where
  "ts_request c method path body params =
     \<lparr>fc_url = (case params of
                  None \<Rightarrow> client_baseUrl c @ path
                | Some entries \<Rightarrow> with_query (client_baseUrl c @ path) (ts_query entries)),
      fc_method = Some method,
      fc_headers = client_headers c,
      fc_body = request_body body\<rparr>"

definition js_request :: "client \<Rightarrow> string \<Rightarrow> string \<Rightarrow> json option \<Rightarrow> params option \<Rightarrow> fetch_call" where
  "js_request c method path body params =
     \<lparr>fc_url = (case params of
                  None \<Rightarrow> client_baseUrl c @ path
                | Some entries \<Rightarrow> with_query (client_baseUrl c @ path) (js_query entries)),
      fc_method = Some method,
      fc_headers = client_headers c,
      fc_body = request_body body\<rparr>"

text \<open>The rest of \<open>request\<close>, after \<open>fetch\<close> settled (a rejected \<open>fetch\<close> is
  \<open>Inl\<close>). \<open>err.detail\<close> on a body that parsed to \<open>null\<close> is a TypeError.\<close>

definition ts_response :: "thrown + response \<Rightarrow> thrown + json" where
  "ts_response settled =
     (case settled of
        Inl e \<Rightarrow> Inl e
      | Inr res \<Rightarrow>
          if \<not> res_ok res then
            (let err = error_payload res in
             if err = JNull then Inl (TypeError ''Cannot read properties of null'')
             else Inl (Error (''CloudPulse API error '' @ show_nat (status res) @ '': ''
                        @ (if truthy_opt (get_prop err ''detail'')
                           then js_String_opt (get_prop err ''detail'')
                           else ''Unknown error''))))
          else json_body res)"

definition js_response :: "thrown + response \<Rightarrow> thrown + json" where
  "js_response settled =
     (case settled of
        Inl e \<Rightarrow> Inl e
      | Inr res \<Rightarrow>
          if \<not> res_ok res then
            (let err = error_payload res in
             if err = JNull then Inl (TypeError ''Cannot read properties of null'')
             else Inl (Error (''CloudPulse API error '' @ show_nat (status res) @ '': ''
                        @ (if truthy_opt (get_prop err ''detail'')
                           then js_String_opt (get_prop err ''detail'')
                           else ''Unknown error''))))
          else json_body res)"

text \<open>The resources both SDKs expose, with their base paths, and the operations.\<close>

datatype resource =
  Workspaces | CostReports | Folders | Segments | Teams | VirtualTags | ApiTokens

fun basePath :: "resource \<Rightarrow> string" where
  "basePath Workspaces = ''/workspaces''"
| "basePath CostReports = ''/cost_reports''"
| "basePath Folders = ''/folders''"
| "basePath Segments = ''/segments''"
| "basePath Teams = ''/teams''"
| "basePath VirtualTags = ''/virtual_tags''"
| "basePath ApiTokens = ''/api_tokens''"

datatype operation =
    List "params option"
  | Get string
  | Create json
  | Update string json
  | Delete string

text \<open>The helpers of the TypeScript base class \<open>Resource\<close>.\<close>

definition Resource_get :: "client \<Rightarrow> string \<Rightarrow> params option \<Rightarrow> fetch_call" where
  "Resource_get c path params = ts_request c ''GET'' path None params"

definition Resource_post :: "client \<Rightarrow> string \<Rightarrow> json \<Rightarrow> fetch_call" where
  "Resource_post c path data = ts_request c ''POST'' path (Some data) None"

definition Resource_put :: "client \<Rightarrow> string \<Rightarrow> json \<Rightarrow> fetch_call" where
  "Resource_put c path data = ts_request c ''PUT'' path (Some data) None"

definition Resource_del :: "client \<Rightarrow> string \<Rightarrow> fetch_call" where
  "Resource_del c path = ts_request c ''DELETE'' path None None"

text \<open>
  The \<open>get(token)\<close> of a TypeScript resource class, \<^verbatim>\<open>return this.get(`/x/${token}`)\<close>.
  The class declares \<open>get\<close> itself, so inside it \<open>this.get\<close> is this method and not the
  helper of \<open>Resource\<close>: the call calls itself with a longer token and never reaches
  \<open>request\<close>. \<open>depth\<close> is the number of stack frames left; when none is left the engine
  throws a RangeError.
\<close>

fun ts_get :: "nat \<Rightarrow> client \<Rightarrow> resource \<Rightarrow> string \<Rightarrow> thrown + fetch_call" where
  "ts_get 0 c r token = Inl (RangeError ''Maximum call stack size exceeded'')"
| "ts_get (Suc depth) c r token = ts_get depth c r (basePath r @ ''/'' @ token)"

text \<open>
  The public methods of the TypeScript resource classes. \<open>list\<close> is
  \<^verbatim>\<open>return this.get('/x', params)\<close>: in the six classes that declare \<open>get\<close> it enters that
  method with the path as token; \<open>APITokensResource\<close> declares no \<open>get\<close> and reaches the
  helper. \<open>APITokensResource\<close> has \<open>list\<close>, \<open>create\<close> and \<open>revoke\<close> (here \<open>Delete\<close>) only: a
  method it does not have is \<open>None\<close>.
\<close>

fun ts_call :: "nat \<Rightarrow> client \<Rightarrow> resource \<Rightarrow> operation \<Rightarrow> (thrown + fetch_call) option" where
  "ts_call depth c r (List params) =
     Some (if r = ApiTokens then Inr (Resource_get c (basePath r) params)
           else ts_get depth c r (basePath r))"
| "ts_call depth c r (Get token) =
     (if r = ApiTokens then None else Some (ts_get depth c r token))"
| "ts_call depth c r (Create data) = Some (Inr (Resource_post c (basePath r) data))"
| "ts_call depth c r (Update token data) =
     (if r = ApiTokens then None
      else Some (Inr (Resource_put c (basePath r @ ''/'' @ token) data)))"
| "ts_call depth c r (Delete token) =
     Some (Inr (Resource_del c (basePath r @ ''/'' @ token)))"

text \<open>The JavaScript \<open>Resource\<close> and \<open>TokensResource\<close> classes.\<close>

fun js_call :: "client \<Rightarrow> resource \<Rightarrow> operation \<Rightarrow> fetch_call option" where
  "js_call c r (List params) = Some (js_request c ''GET'' (basePath r) (Some JNull) params)"
| "js_call c r (Get token) =
     (if r = ApiTokens then None
      else Some (js_request c ''GET'' (basePath r @ ''/'' @ token) None None))"
| "js_call c r (Create data) = Some (js_request c ''POST'' (basePath r) (Some data) None)"
| "js_call c r (Update token data) =
     (if r = ApiTokens then None
      else Some (js_request c ''PUT'' (basePath r @ ''/'' @ token) (Some data) None))"
| "js_call c r (Delete token) =
     Some (js_request c ''DELETE'' (basePath r @ ''/'' @ token) None None)"


section \<open>The Go SDK client\<close>

record go_client =
  BaseURL :: string
  APIToken :: string

definition NewClient :: "string \<Rightarrow> go_client" where
  "NewClient tok =
     \<lparr>BaseURL = ''https://api.cloudpulse.dev'' @ ''/api/'' @ ''v2'', APIToken = tok\<rparr>"

record go_request =
  rq_method :: string
  rq_url :: string
  rq_body :: "string option"
  rq_header :: "(string \<times> string) list"

text \<open>A response as \<open>doRequest\<close> uses it: the status code and what \<open>io.ReadAll\<close> of the
  body gives, an error or the bytes.\<close>

record go_response =
  StatusCode :: int
  ReadAll :: "string + string"

text \<open>
  \<open>doRequest\<close> returns \<open>(data, nil)\<close> as \<open>Inr data\<close> and \<open>(nil, err)\<close> as \<open>Inl err\<close>. Its
  environment is given as functions: \<open>Marshal\<close> is \<open>json.Marshal\<close>, \<open>NewRequest\<close> the error
  of \<open>http.NewRequest\<close> if any, \<open>Do\<close> is \<open>c.HTTPClient.Do\<close>. A \<open>nil\<close> body is \<open>None\<close>.
\<close>

definition doRequest ::
    "('b \<Rightarrow> string + string) \<Rightarrow> (string \<Rightarrow> string \<Rightarrow> string option)
      \<Rightarrow> (go_request \<Rightarrow> string + go_response)
      \<Rightarrow> go_client \<Rightarrow> string \<Rightarrow> string \<Rightarrow> 'b option \<Rightarrow> string + string" where
  "doRequest Marshal NewRequest Do c method path body =
     (case (case body of
              None \<Rightarrow> Inr None
            | Some v \<Rightarrow> (case Marshal v of Inl err \<Rightarrow> Inl err | Inr b \<Rightarrow> Inr (Some b))) of
        Inl err \<Rightarrow> Inl err
      | Inr buf \<Rightarrow>
          (case NewRequest method (BaseURL c @ path) of
             Some err \<Rightarrow> Inl err
           | None \<Rightarrow>
               (case Do \<lparr>rq_method = method, rq_url = BaseURL c @ path, rq_body = buf,
                         rq_header = [(''Authorization'', ''Bearer '' @ APIToken c),
                                      (''Content-Type'', ''application/json''),
                                      (''User-Agent'', ''cloudpulse-go/0.1.0'')]\<rparr> of
                  Inl err \<Rightarrow> Inl err
                | Inr resp \<Rightarrow>
                    (case ReadAll resp of
                       Inl err \<Rightarrow> Inl err
                     | Inr data \<Rightarrow>
                         if StatusCode resp \<ge> 400
                         then Inl (''API error '' @ show_int (StatusCode resp) @ '': '' @ data)
                         else Inr data))))"

text \<open>An environment in which nothing fails before the status test: every body
  marshals, every request is well formed, and the server answers with one response.\<close>

definition Marshal_json :: "json \<Rightarrow> string + string" where
  "Marshal_json v = Inr (JSON_stringify v [] [])"

definition NewRequest_ok :: "string \<Rightarrow> string \<Rightarrow> string option" where
  "NewRequest_ok method url = None"

definition Do_answer :: "go_response \<Rightarrow> go_request \<Rightarrow> string + go_response" where
  "Do_answer resp req = Inr resp"


section \<open>The frontend API client\<close>

text \<open>The \<open>options\<close> object given to \<open>request\<close>; a key that is absent is \<open>None\<close>.\<close>

record request_options =
  opt_method :: "string option"
  opt_body :: "string option"
  opt_headers :: "(string \<times> string) list option"

definition BASE_URL :: string where
  "BASE_URL = ''/api/v1''"

definition V2_BASE_URL :: string where
  "V2_BASE_URL = ''/api/v2''"

text \<open>Object spread: the keys of the second object are written over the first.\<close>

definition spread :: "(string \<times> string) list \<Rightarrow> (string \<times> string) list \<Rightarrow> (string \<times> string) list" where
  "spread xs ys = foldl (\<lambda>acc (k, v). AList.update k v acc) xs ys"

text \<open>
  \<open>request(endpoint, options, baseUrl)\<close> up to its \<open>fetch\<close> call; \<open>stored\<close> is
  \<open>localStorage.getItem('cloudpulse_token')\<close>. In \<^verbatim>\<open>{ headers, ...options }\<close> a \<open>headers\<close> key
  of \<open>options\<close> replaces the merged headers.
\<close>

definition request :: "string option \<Rightarrow> string \<Rightarrow> request_options \<Rightarrow> string \<Rightarrow> fetch_call" where
  "request stored endpoint options base =
     (let headers =
            spread
              (spread [(''Content-Type'', ''application/json'')]
                 (case stored of
                    None \<Rightarrow> []
                  | Some t \<Rightarrow> if t \<noteq> [] then [(''Authorization'', ''Bearer '' @ t)] else []))
              (case opt_headers options of None \<Rightarrow> [] | Some hs \<Rightarrow> hs)
      in \<lparr>fc_url = base @ endpoint,
          fc_method = opt_method options,
          fc_headers = (case opt_headers options of None \<Rightarrow> headers | Some hs \<Rightarrow> hs),
          fc_body = opt_body options\<rparr>)"

text \<open>\<^verbatim>\<open>validateCQL: (filter) => request('/query/validate',
  { method: 'POST', body: JSON.stringify({ filter }) }, V2_BASE_URL)\<close>\<close>

definition validateCQL :: "string option \<Rightarrow> string \<Rightarrow> fetch_call" where
  "validateCQL stored cql =
     request stored ''/query/validate''
       \<lparr>opt_method = Some ''POST'',
        opt_body = Some (JSON_stringify (JObj [(''filter'', JStr cql)]) [] []),
        opt_headers = None\<rparr>
       V2_BASE_URL"


section \<open>The MCP server\<close>

record mcp_env =
  CLOUDPULSE_API_URL :: "string option"
  CLOUDPULSE_API_TOKEN :: "string option"

text \<open>\<^verbatim>\<open>process.env.X || default\<close>: an unset or empty variable gives the default.\<close>

definition env_or :: "string option \<Rightarrow> string \<Rightarrow> string" where
  "env_or v d = (case v of None \<Rightarrow> d | Some s \<Rightarrow> if s \<noteq> [] then s else d)"

definition API_BASE :: "mcp_env \<Rightarrow> string" where
  "API_BASE env = env_or (CLOUDPULSE_API_URL env) ''https://api.cloudpulse.dev''"

definition API_TOKEN :: "mcp_env \<Rightarrow> string" where
  "API_TOKEN env = env_or (CLOUDPULSE_API_TOKEN env) []"

text \<open>\<open>apiRequest\<close>: the \<open>fetch\<close> call it makes, and what it does with the settled
  \<open>fetch\<close>. The network is a function from the call to its outcome.\<close>

definition apiRequest_call :: "mcp_env \<Rightarrow> string \<Rightarrow> string \<Rightarrow> json option \<Rightarrow> fetch_call" where
  "apiRequest_call env method path body =
     \<lparr>fc_url = API_BASE env @ ''/api/v2'' @ path,
      fc_method = Some method,
      fc_headers = [(''Authorization'', ''Bearer '' @ API_TOKEN env),
                    (''Content-Type'', ''application/json'')],
      fc_body = request_body body\<rparr>"

definition apiRequest_settled :: "thrown + response \<Rightarrow> thrown + json" where
  "apiRequest_settled settled =
     (case settled of
        Inl e \<Rightarrow> Inl e
      | Inr res \<Rightarrow>
          if \<not> res_ok res then
            (let err = error_payload res in
             if err = JNull then Inl (TypeError ''Cannot read properties of null'')
             else Inl (Error (''API error '' @ show_nat (status res) @ '': ''
                        @ js_String_opt (get_prop err ''detail''))))
          else json_body res)"

definition apiRequest ::
    "(fetch_call \<Rightarrow> thrown + response) \<Rightarrow> mcp_env \<Rightarrow> string \<Rightarrow> string \<Rightarrow> json option
      \<Rightarrow> thrown + json" where
  "apiRequest fetch env method path body =
     apiRequest_settled (fetch (apiRequest_call env method path body))"

text \<open>The \<open>arguments\<close> of a tool call: an object (its properties) or \<open>undefined\<close>;
  \<open>args?.k\<close> reads a property.\<close>

type_synonym tool_args = "(string \<times> json) list option"

definition arg :: "tool_args \<Rightarrow> string \<Rightarrow> json option" where
  "arg args k = (case args of None \<Rightarrow> None | Some fs \<Rightarrow> map_of fs k)"

definition args_value :: "tool_args \<Rightarrow> json option" where
  "args_value args = map_option JObj args"

record content_item =
  item_type :: string
  item_text :: string

record tool_result =
  content :: "content_item list"
  isError :: "bool option"

text \<open>\<^verbatim>\<open>args?.workspace_token ? `?workspace_token=${args.workspace_token}` : ''\<close>\<close>

definition workspace_qs :: "tool_args \<Rightarrow> string" where
  "workspace_qs args =
     (if truthy_opt (arg args ''workspace_token'')
      then ''?workspace_token='' @ js_String_opt (arg args ''workspace_token'')
      else [])"

text \<open>The cases of the \<open>switch\<close>: each known tool name makes one \<open>apiRequest\<close>, with
  this method, path and body; any other name takes the default branch.\<close>

definition tool_request :: "string \<Rightarrow> tool_args \<Rightarrow> (string \<times> string \<times> json option) option" where
  "tool_request name args =
     (if name = ''list_workspaces'' then Some (''GET'', ''/workspaces'', None)
      else if name = ''list_cost_reports'' then
        Some (''GET'', ''/cost_reports'' @ workspace_qs args, None)
      else if name = ''get_cost_report'' then
        Some (''GET'', ''/cost_reports/'' @ js_String_opt (arg args ''token''), None)
      else if name = ''create_cost_report'' then
        Some (''POST'', ''/cost_reports'', args_value args)
      else if name = ''list_segments'' then
        Some (''GET'', ''/segments'' @ workspace_qs args, None)
      else None)"

text \<open>The \<open>switch\<close> inside the \<open>try\<close>: \<open>Inr (Inl r)\<close> is the \<open>return\<close> of the default
  branch, \<open>Inr (Inr v)\<close> the \<open>result\<close> after \<open>break\<close>, \<open>Inl e\<close> what an \<open>await\<close> threw.\<close>

definition tool_switch ::
    "(fetch_call \<Rightarrow> thrown + response) \<Rightarrow> mcp_env \<Rightarrow> string \<Rightarrow> tool_args
      \<Rightarrow> thrown + (tool_result + json)" where
  "tool_switch fetch env name args =
     (case tool_request name args of
        Some (method, path, body) \<Rightarrow> map_sum id Inr (apiRequest fetch env method path body)
      | None \<Rightarrow>
          Inr (Inl \<lparr>content = [\<lparr>item_type = ''text'', item_text = ''Unknown tool: '' @ name\<rparr>],
                    isError = Some True\<rparr>))"

text \<open>\<^verbatim>\<open>error instanceof Error ? error.message : String(error)\<close>\<close>

fun error_text :: "thrown \<Rightarrow> string" where
  "error_text (NonError v) = js_String v"
| "error_text (Error m) = m"
| "error_text (TypeError m) = m"
| "error_text (SyntaxError m) = m"
| "error_text (RangeError m) = m"

text \<open>The CallTool handler: the \<open>try\<close> with its \<open>catch\<close>. The result type keeps a place
  for an exception that would leave the handler.\<close>

definition call_tool ::
    "(fetch_call \<Rightarrow> thrown + response) \<Rightarrow> mcp_env \<Rightarrow> string \<Rightarrow> tool_args
      \<Rightarrow> thrown + tool_result" where
  "call_tool fetch env name args =
     (case tool_switch fetch env name args of
        Inr (Inl returned) \<Rightarrow> Inr returned
      | Inr (Inr result) \<Rightarrow>
          Inr \<lparr>content = [\<lparr>item_type = ''text'', item_text = JSON_stringify result ''  '' []\<rparr>],
               isError = None\<rparr>
      | Inl error \<Rightarrow>
          Inr \<lparr>content = [\<lparr>item_type = ''text'', item_text = ''Error: '' @ error_text error\<rparr>],
               isError = Some True\<rparr>)"

text \<open>A network that answers every call with the same response.\<close>

definition answer :: "response \<Rightarrow> fetch_call \<Rightarrow> thrown + response" where
  "answer res call = Inr res"


section \<open>AuthProvider\<close>

text \<open>
  The state of the provider: the three \<open>useState\<close> cells and \<open>localStorage\<close>. \<open>null\<close> is
  \<open>JNull\<close> for the user and \<open>None\<close> for the token and for a key that is not stored.
\<close>

record auth_state =
  auth_user :: json
  auth_token :: "string option"
  auth_loading :: bool
  localStorage :: "string \<Rightarrow> string option"

definition AuthProvider_init :: "(string \<Rightarrow> string option) \<Rightarrow> auth_state" where
  "AuthProvider_init stored =
     \<lparr>auth_user = JNull, auth_token = stored ''cloudpulse_token'', auth_loading = True,
      localStorage = stored\<rparr>"

text \<open>The promise chain on \<open>fetch('/api/v1/auth/me')\<close> up to its first \<open>then\<close>: the user
  data, or the rejection that \<open>catch\<close> receives.\<close>

definition validate_me :: "thrown + response \<Rightarrow> thrown + json" where
  "validate_me settled =
     (case settled of
        Inl e \<Rightarrow> Inl e
      | Inr res \<Rightarrow> if res_ok res then json_body res else Inl (Error ''Invalid token''))"

text \<open>\<open>logout\<close>, and the body of the \<open>catch\<close>, which has the same three statements.\<close>

definition logout :: "auth_state \<Rightarrow> auth_state" where
  "logout s =
     s\<lparr>localStorage := (localStorage s)(''cloudpulse_token'' := None),
       auth_token := None,
       auth_user := JNull\<rparr>"

definition validation_failed :: "auth_state \<Rightarrow> auth_state" where
  "validation_failed s =
     s\<lparr>localStorage := (localStorage s)(''cloudpulse_token'' := None),
       auth_token := None,
       auth_user := JNull\<rparr>"

text \<open>
  What can happen to the provider: the effect runs for the current token (and starts the
  validation when the token is truthy), a validation settles, a login succeeds with an
  access token, \<open>logout\<close> is called. A login or signup that fails throws and changes nothing.
\<close>

datatype auth_event =
    EffectRun
  | MeSettled "thrown + response"
  | LoginOk string
  | Logout

fun auth_step :: "auth_state \<Rightarrow> auth_event \<Rightarrow> auth_state" where
  "auth_step s EffectRun =
     (case auth_token s of
        None \<Rightarrow> s\<lparr>auth_loading := False\<rparr>
      | Some t \<Rightarrow> if t \<noteq> [] then s else s\<lparr>auth_loading := False\<rparr>)"
| "auth_step s (MeSettled settled) =
     (case validate_me settled of
        Inr userData \<Rightarrow> s\<lparr>auth_user := userData, auth_loading := False\<rparr>
      | Inl e \<Rightarrow> (validation_failed s)\<lparr>auth_loading := False\<rparr>)"
| "auth_step s (LoginOk access_token) =
     s\<lparr>localStorage := (localStorage s)(''cloudpulse_token'' \<mapsto> access_token),
       auth_token := Some access_token\<rparr>"
| "auth_step s Logout = logout s"

definition auth_run :: "auth_state \<Rightarrow> auth_event list \<Rightarrow> auth_state" where
  "auth_run s es = foldl auth_step s es"

text \<open>The context value of one render.\<close>

record auth_context =
  ctx_user :: json
  ctx_token :: "string option"
  ctx_loading :: bool
  isAuthenticated :: bool

definition render :: "auth_state \<Rightarrow> auth_context" where
  "render s =
     \<lparr>ctx_user = auth_user s, ctx_token = auth_token s, ctx_loading = auth_loading s,
      isAuthenticated = truthy (auth_user s)\<rparr>"

text \<open>A validation that answers with success carries a user object (the pages read
  \<open>user.email\<close>) or \<open>null\<close>.\<close>

fun is_object :: "json \<Rightarrow> bool" where
  "is_object (JObj fs) = True"
| "is_object j = False"

fun user_payload_ok :: "auth_event \<Rightarrow> bool" where
  "user_payload_ok (MeSettled settled) =
     (case validate_me settled of Inr userData \<Rightarrow> is_object userData \<or> userData = JNull | Inl e \<Rightarrow> True)"
| "user_payload_ok e = True"

text \<open>The user cell holds \<open>null\<close> or an object.\<close>

definition user_inv :: "auth_state \<Rightarrow> bool" where
  "user_inv s \<longleftrightarrow> auth_user s = JNull \<or> is_object (auth_user s)"


section \<open>Budgets page\<close>

record budget =
  amount :: real
  current_spend :: real
  alert_at_pct :: real










section \<open>Anomalies page\<close>

text \<open>
  An anomaly as the page reads it: \<open>id\<close>, \<open>severity\<close>, \<open>acknowledged\<close>, the two amounts;
  whatever else the API sends travels in the record's extension.
\<close>

record 'i anomaly =
  anomaly_id :: 'i
  service :: string
  severity :: string
  expected_amount :: real
  actual_amount :: real
  acknowledged :: bool

text \<open>The updater given to \<open>setAnomalies\<close>:
  \<^verbatim>\<open>prev.map((a) => (a.id === id ? { ...a, acknowledged: true } : a))\<close>.\<close>

definition acknowledge ::
    "'i \<Rightarrow> ('i, 'm) anomaly_scheme list \<Rightarrow> ('i, 'm) anomaly_scheme list" where
  "acknowledge i prev = map (\<lambda>a. if anomaly_id a = i then a\<lparr>acknowledged := True\<rparr> else a) prev"

text \<open>\<open>handleAcknowledge\<close>: the state is updated after \<open>api.acknowledgeAnomaly(id)\<close> resolved;
  when it rejects, the \<open>catch\<close> logs and the list stays.\<close>

definition handleAcknowledge ::
    "string + 'r \<Rightarrow> 'i \<Rightarrow> ('i, 'm) anomaly_scheme list \<Rightarrow> ('i, 'm) anomaly_scheme list" where
  "handleAcknowledge api_result i prev =
     (case api_result of Inl err \<Rightarrow> prev | Inr ok \<Rightarrow> acknowledge i prev)"





chapter \<open>Properties\<close>

section \<open>Budget status and summary statistics\<close>


















section \<open>The SDK clients: URLs and queries\<close>

lemma query_no_null:
  assumes "\<forall>e \<in> set es. snd e \<noteq> PNull"
  shows "ts_query es = js_query es"
  unfolding ts_query_def js_query_def
  using assms by (intro foldl_cong) auto

lemma baseUrl_agree:
  "baseUrl options \<noteq> Some [] \<Longrightarrow>
     client_baseUrl (ts_CloudPulseClient options) = client_baseUrl (js_CloudPulseClient options)"
  by (simp add: ts_CloudPulseClient_def js_CloudPulseClient_def split: option.splits)

lemma qs_set_fresh: "k \<notin> fst ` set qs \<Longrightarrow> qs_set k v qs = qs @ [(k, v)]"
  by (induction qs) auto

lemma query_foldl_distinct:
  assumes "distinct (map fst es)" "fst ` set acc \<inter> fst ` set es = {}"
  shows "foldl (\<lambda>qs (k, v). if P v then qs_set k (String_param v) qs else qs) acc es
       = acc @ map (\<lambda>(k, v). (k, String_param v)) (filter (\<lambda>(k, v). P v) es)"
  using assms
proof (induction es arbitrary: acc)
  case Nil
  then show ?case by simp
next
  case (Cons e es)
  obtain k v where e: "e = (k, v)" by (cases e)
  show ?case
  proof (cases "P v")
    case True
    have fresh: "k \<notin> fst ` set acc" using Cons.prems e by auto
    have "fst ` set (acc @ [(k, v')]) \<inter> fst ` set es = {}" for v'
      using Cons.prems e by auto
    then show ?thesis
      using Cons.IH [of "acc @ [(k, String_param v)]"] Cons.prems True e
      by (simp add: qs_set_fresh [OF fresh])
  next
    case False
    have "fst ` set acc \<inter> fst ` set es = {}" using Cons.prems by auto
    then show ?thesis
      using Cons.IH [of acc] Cons.prems False e by simp
  qed
qed

lemma ts_query_distinct:
  "distinct (map fst es) \<Longrightarrow>
     ts_query es = map (\<lambda>(k, v). (k, String_param v)) (filter (\<lambda>(k, v). v \<noteq> PUndefined) es)"
  unfolding ts_query_def
  using query_foldl_distinct [of es "[]" "\<lambda>v. v \<noteq> PUndefined"] by simp

lemma js_query_distinct:
  "distinct (map fst es) \<Longrightarrow>
     js_query es = map (\<lambda>(k, v). (k, String_param v))
                     (filter (\<lambda>(k, v). v \<noteq> PUndefined \<and> v \<noteq> PNull) es)"
  unfolding js_query_def
  using query_foldl_distinct [of es "[]" "\<lambda>v. v \<noteq> PUndefined \<and> v \<noteq> PNull"] by simp

lemma join_member: "x \<in> set xs \<Longrightarrow> \<exists>pre post. join sep xs = pre @ x @ post"
proof (induction sep xs rule: join.induct)
  case (1 sep)
  then show ?case by simp
next
  case (2 sep y)
  then have "join sep [y] = [] @ x @ []" by simp
  then show ?case by blast
next
  case (3 sep y z zs)
  show ?case
  proof (cases "x = y")
    case True
    then have "join sep (y # z # zs) = [] @ x @ (sep @ join sep (z # zs))" by simp
    then show ?thesis by blast
  next
    case False
    then have "x \<in> set (z # zs)" using 3 by auto
    then obtain pre post where "join sep (z # zs) = pre @ x @ post" using 3 by blast
    then have "join sep (y # z # zs) = (y @ sep @ pre) @ x @ post" by simp
    then show ?thesis by blast
  qed
qed

lemma join_nonempty: "xs \<noteq> [] \<Longrightarrow> hd xs \<noteq> [] \<Longrightarrow> join sep xs \<noteq> []"
  by (induction sep xs rule: join.induct) auto

lemma qs_toString_nonempty: "qs \<noteq> [] \<Longrightarrow> qs_toString qs \<noteq> []"
proof -
  assume "qs \<noteq> []"
  then have "query_components qs \<noteq> []" and "hd (query_components qs) \<noteq> []"
    by (cases qs; auto simp: query_components_def)+
  then show ?thesis
    unfolding qs_toString_def by (rule join_nonempty)
qed

lemma urlencode_keep: "\<forall>c \<in> set s. urlencoded_keep c \<Longrightarrow> urlencode s = s"
proof (induction s)
  case Nil
  then show ?case by (simp add: urlencode_def)
next
  case (Cons c s)
  have "urlencoded_keep c" using Cons.prems by simp
  moreover have "\<not> urlencoded_keep (CHR '' '')" by (simp add: urlencoded_keep_def)
  ultimately have "urlencode_byte c = [c]" by (auto simp: urlencode_byte_def)
  then show ?case using Cons by (simp add: urlencode_def)
qed

lemma urlencode_workspace_token: "urlencode ''workspace_token'' = ''workspace_token''"
  by (rule urlencode_keep) (simp add: urlencoded_keep_def)

lemma workspace_token_component:
  "(''workspace_token'', v) \<in> set qs \<Longrightarrow>
     \<exists>pre post. qs_toString qs = pre @ ''workspace_token='' @ urlencode v @ post"
proof -
  assume "(''workspace_token'', v) \<in> set qs"
  then have "(\<lambda>(k, v). urlencode k @ ''='' @ urlencode v) (''workspace_token'', v)
      \<in> set (query_components qs)"
    unfolding query_components_def by (metis (no_types, lifting) image_eqI set_map)
  then have "''workspace_token='' @ urlencode v \<in> set (query_components qs)"
    by (simp add: urlencode_workspace_token)
  then obtain pre post where
      "join ''&'' (query_components qs) = pre @ (''workspace_token='' @ urlencode v) @ post"
    using join_member by blast
  then have "qs_toString qs = pre @ ''workspace_token='' @ urlencode v @ post"
    by (simp add: qs_toString_def)
  then show ?thesis by blast
qed


text \<open>The \<open>get\<close> of a TypeScript resource class ends in the RangeError, whatever the
  stack allows and whatever the token.\<close>

lemma ts_get_overflows:
  "ts_get depth c r token = Inl (RangeError ''Maximum call stack size exceeded'')"
  by (induction depth arbitrary: token) simp_all

lemma requests_agree:
  assumes "baseUrl options \<noteq> Some []"
    and "\<forall>ps. params = Some ps \<longrightarrow> (\<forall>e \<in> set ps. snd e \<noteq> PNull)"
  shows "fc_method (ts_request (ts_CloudPulseClient options) m path body params)
           = fc_method (js_request (js_CloudPulseClient options) m path body' params)
       \<and> fc_url (ts_request (ts_CloudPulseClient options) m path body params)
           = fc_url (js_request (js_CloudPulseClient options) m path body' params)"
proof (cases params)
  case None
  then show ?thesis
    by (simp add: ts_request_def js_request_def baseUrl_agree [OF assms(1)])
next
  case (Some ps)
  with assms(2) have "ts_query ps = js_query ps"
    by (intro query_no_null) simp
  with Some show ?thesis
    by (simp add: ts_request_def js_request_def baseUrl_agree [OF assms(1)])
qed

text \<open>
  The claim C1 as it is written fails when the \<open>baseUrl\<close> option is the empty string:
  the TypeScript constructor takes the default host for it (\<open>||\<close>), the JavaScript
  constructor keeps it (a default parameter applies to \<open>undefined\<close> only), and the two
  request URLs differ.
\<close>

theorem sdk_empty_baseUrl_counterexample:
  "ts_call 10000 (ts_CloudPulseClient \<lparr>apiToken = ''cpls_1'', baseUrl = Some []\<rparr>)
        Workspaces (Delete ''wrkspc_1'')
     = Some (Inr \<lparr>fc_url = ''https://api.cloudpulse.dev/api/v2/workspaces/wrkspc_1'',
                  fc_method = Some ''DELETE'',
                  fc_headers = [(''Authorization'', ''Bearer cpls_1''),
                                (''Content-Type'', ''application/json''),
                                (''User-Agent'', ''cloudpulse-ts/0.1.0'')],
                  fc_body = None\<rparr>)
   \<and> js_call (js_CloudPulseClient \<lparr>apiToken = ''cpls_1'', baseUrl = Some []\<rparr>)
        Workspaces (Delete ''wrkspc_1'')
     = Some \<lparr>fc_url = ''/api/v2/workspaces/wrkspc_1'',
             fc_method = Some ''DELETE'',
             fc_headers = [(''Authorization'', ''Bearer cpls_1''),
                           (''Content-Type'', ''application/json''),
                           (''User-Agent'', ''cloudpulse-js/0.1.0'')],
             fc_body = None\<rparr>"
  by (simp add: ts_CloudPulseClient_def js_CloudPulseClient_def Resource_del_def ts_request_def
      js_request_def request_body_def strip_trailing_slash_def)

text \<open>A \<open>null\<close> value in \<open>params\<close> separates the two clients as well: TypeScript sends
  it as the text \<open>null\<close>, JavaScript leaves the key out.\<close>

lemma sdk_null_param_differs:
  "map_option (map_sum id fc_url)
     (ts_call 10000 (ts_CloudPulseClient \<lparr>apiToken = ''cpls_1'', baseUrl = None\<rparr>)
        ApiTokens (List (Some [(''page'', PNull)])))
     = Some (Inr ''https://api.cloudpulse.dev/api/v2/api_tokens?page=null'')
   \<and> map_option fc_url (js_call (js_CloudPulseClient \<lparr>apiToken = ''cpls_1'', baseUrl = None\<rparr>)
        ApiTokens (List (Some [(''page'', PNull)])))
     = Some ''https://api.cloudpulse.dev/api/v2/api_tokens''"
  by (simp add: ts_CloudPulseClient_def js_CloudPulseClient_def Resource_get_def ts_request_def
      js_request_def with_query_def ts_query_def js_query_def qs_toString_def query_components_def
      urlencode_def urlencode_byte_def urlencoded_keep_def strip_trailing_slash_def)

text \<open>
  C1, amended. Given the same \<open>baseUrl\<close> option other than the empty string and the same
  \<open>params\<close> without \<open>null\<close> values, the \<open>request\<close> functions of the two clients compute
  the same HTTP method and the same request URL (query string included) for every
  method and path; and for \<open>create\<close>, \<open>update\<close> and \<open>delete\<close>/\<open>revoke\<close> on every resource,
  and for every operation of \<open>api_tokens\<close>, the two clients make the same request: the
  same method, URL and body, with the same token argument. (What \<open>list\<close> and \<open>get\<close> of
  the other TypeScript resource classes do is the subject of C5.)
\<close>

theorem sdk_calls_agree:
  assumes "baseUrl options \<noteq> Some []"
    and "\<forall>ps. params = Some ps \<longrightarrow> (\<forall>e \<in> set ps. snd e \<noteq> PNull)"
    and "op = List params \<and> r = ApiTokens \<or> (\<exists>d. op = Create d) \<or> (\<exists>t d. op = Update t d)
         \<or> (\<exists>t. op = Delete t)"
  shows "fc_method (ts_request (ts_CloudPulseClient options) m path body params)
           = fc_method (js_request (js_CloudPulseClient options) m path body' params)
       \<and> fc_url (ts_request (ts_CloudPulseClient options) m path body params)
           = fc_url (js_request (js_CloudPulseClient options) m path body' params)
       \<and> map_option (map_sum id fc_method) (ts_call depth (ts_CloudPulseClient options) r op)
           = map_option (Inr \<circ> fc_method) (js_call (js_CloudPulseClient options) r op)
       \<and> map_option (map_sum id fc_url) (ts_call depth (ts_CloudPulseClient options) r op)
           = map_option (Inr \<circ> fc_url) (js_call (js_CloudPulseClient options) r op)
       \<and> map_option (map_sum id fc_body) (ts_call depth (ts_CloudPulseClient options) r op)
           = map_option (Inr \<circ> fc_body) (js_call (js_CloudPulseClient options) r op)"
proof -
  note req = requests_agree [OF assms(1)]
  have bodies: "fc_body (ts_request c1 m1 p1 b1 q1) = request_body b1"
      "fc_body (js_request c2 m2 p2 b2 q2) = request_body b2" for c1 c2 m1 m2 p1 p2 b1 b2 q1 q2
    by (simp_all add: ts_request_def js_request_def)
  have null_body: "request_body (Some JNull) = request_body None"
    by (simp add: request_body_def)
  have calls: "map_option (map_sum id fc_method) (ts_call depth (ts_CloudPulseClient options) r op)
           = map_option (Inr \<circ> fc_method) (js_call (js_CloudPulseClient options) r op)
       \<and> map_option (map_sum id fc_url) (ts_call depth (ts_CloudPulseClient options) r op)
           = map_option (Inr \<circ> fc_url) (js_call (js_CloudPulseClient options) r op)
       \<and> map_option (map_sum id fc_body) (ts_call depth (ts_CloudPulseClient options) r op)
           = map_option (Inr \<circ> fc_body) (js_call (js_CloudPulseClient options) r op)"
  proof -
    consider (list) "op = List params" "r = ApiTokens" | (create) d where "op = Create d"
      | (update) t d where "op = Update t d" | (delete) t where "op = Delete t"
      using assms(3) by blast
    then show ?thesis
    proof cases
      case list
      then show ?thesis
        using req [OF assms(2), of "''GET''" "basePath r" None "Some JNull"]
        by (simp add: Resource_get_def bodies null_body)
    next
      case create
      then show ?thesis
        using req [of None "''POST''" "basePath r" "Some d" "Some d"]
        by (simp add: Resource_post_def bodies)
    next
      case update
      then show ?thesis
        using req [of None "''PUT''" "basePath r @ ''/'' @ t" "Some d" "Some d"]
        by (simp add: Resource_put_def bodies)
    next
      case delete
      then show ?thesis
        using req [of None "''DELETE''" "basePath r @ ''/'' @ t" None None]
        by (simp add: Resource_del_def bodies)
    qed
  qed
  show ?thesis
    using req [OF assms(2), of m path body body'] calls by simp
qed

theorem sdk_calls_agree_witness:
  "map_option (map_sum id fc_url)
     (ts_call 10000 (ts_CloudPulseClient \<lparr>apiToken = ''cpls_1'', baseUrl = Some ''http://localhost:8000/''\<rparr>)
        ApiTokens (List (Some [(''page'', PNum 2), (''limit'', PNum 50)])))
   = Some (Inr ''http://localhost:8000/api/v2/api_tokens?page=2&limit=50'')
   \<and> map_option fc_url
     (js_call (js_CloudPulseClient \<lparr>apiToken = ''cpls_1'', baseUrl = Some ''http://localhost:8000/''\<rparr>)
        ApiTokens (List (Some [(''page'', PNum 2), (''limit'', PNum 50)])))
   = Some ''http://localhost:8000/api/v2/api_tokens?page=2&limit=50''"
proof -
  let ?opts = "\<lparr>apiToken = ''cpls_1'', baseUrl = Some ''http://localhost:8000/''\<rparr>"
  let ?ps = "[(''page'', PNum 2), (''limit'', PNum 50)]"
  have ts: "map_option (map_sum id fc_url)
     (ts_call 10000 (ts_CloudPulseClient ?opts) ApiTokens (List (Some ?ps)))
   = Some (Inr ''http://localhost:8000/api/v2/api_tokens?page=2&limit=50'')"
    by (simp add: ts_CloudPulseClient_def Resource_get_def ts_request_def with_query_def ts_query_def
        qs_toString_def query_components_def urlencode_def urlencode_byte_def urlencoded_keep_def
        show_int_def show_nat.simps digit_char_def strip_trailing_slash_def)
  have h1: "baseUrl ?opts \<noteq> Some []"
    by simp
  have h2: "\<forall>ps. Some ?ps = Some ps \<longrightarrow> (\<forall>e \<in> set ps. snd e \<noteq> PNull)"
    by simp
  have h3: "List (Some ?ps) = List (Some ?ps) \<and> ApiTokens = ApiTokens
         \<or> (\<exists>d. List (Some ?ps) = Create d) \<or> (\<exists>t d. List (Some ?ps) = Update t d)
         \<or> (\<exists>t. List (Some ?ps) = Delete t)"
    by simp
  have "map_option (map_sum id fc_url) (ts_call 10000 (ts_CloudPulseClient ?opts) ApiTokens (List (Some ?ps)))
      = map_option (Inr \<circ> fc_url) (js_call (js_CloudPulseClient ?opts) ApiTokens (List (Some ?ps)))"
    using sdk_calls_agree [OF h1 h2 h3] by blast
  with ts have "map_option (Inr \<circ> fc_url) (js_call (js_CloudPulseClient ?opts) ApiTokens (List (Some ?ps)))
      = Some (Inr ''http://localhost:8000/api/v2/api_tokens?page=2&limit=50'' :: thrown + string)"
    by simp
  then have "map_option fc_url (js_call (js_CloudPulseClient ?opts) ApiTokens (List (Some ?ps)))
      = Some ''http://localhost:8000/api/v2/api_tokens?page=2&limit=50''"
    by simp
  with ts show ?thesis by simp
qed

text \<open>
  What \<open>list\<close> with a \<open>workspace_token\<close> is meant to send, and what the JavaScript client
  and the helper \<open>Resource.get\<close> of the TypeScript client do send, for \<open>params\<close> with
  distinct keys: the query has the pair (\<open>workspace_token\<close>, value), the URL is the base
  URL, the path, \<open>?\<close> and the serialized query, which contains \<open>workspace_token=\<close> and
  the value in urlencoded form (the value itself when it consists of letters, digits
  and \<open>* - . _\<close>). When the key is absent or \<open>undefined\<close> the query has no
  \<open>workspace_token\<close> key, and without \<open>params\<close> the URL has no query at all.
\<close>

lemma list_workspace_token:
  assumes "distinct (map fst ps)"
  shows "((''workspace_token'', PStr v) \<in> set ps \<longrightarrow>
            (''workspace_token'', v) \<in> set (ts_query ps)
          \<and> (''workspace_token'', v) \<in> set (js_query ps)
          \<and> fc_url (Resource_get c (basePath r) (Some ps))
              = client_baseUrl c @ basePath r @ ''?'' @ qs_toString (ts_query ps)
          \<and> map_option fc_url (js_call c r (List (Some ps)))
              = Some (client_baseUrl c @ basePath r @ ''?'' @ qs_toString (js_query ps))
          \<and> (\<exists>pre post. qs_toString (ts_query ps) = pre @ ''workspace_token='' @ urlencode v @ post)
          \<and> (\<exists>pre post. qs_toString (js_query ps) = pre @ ''workspace_token='' @ urlencode v @ post)
          \<and> ((\<forall>ch \<in> set v. urlencoded_keep ch) \<longrightarrow> urlencode v = v))
       \<and> (''workspace_token'' \<notin> fst ` set ps \<or> (''workspace_token'', PUndefined) \<in> set ps \<longrightarrow>
            ''workspace_token'' \<notin> fst ` set (ts_query ps)
          \<and> ''workspace_token'' \<notin> fst ` set (js_query ps))
       \<and> fc_url (Resource_get c (basePath r) (Some [(''workspace_token'', PStr v)]))
            = client_baseUrl c @ basePath r @ ''?workspace_token='' @ urlencode v
       \<and> map_option fc_url (js_call c r (List (Some [(''workspace_token'', PStr v)])))
            = Some (client_baseUrl c @ basePath r @ ''?workspace_token='' @ urlencode v)
       \<and> fc_url (Resource_get c (basePath r) None) = client_baseUrl c @ basePath r
       \<and> map_option fc_url (js_call c r (List None)) = Some (client_baseUrl c @ basePath r)"
proof -
  note tsq = ts_query_distinct [OF assms]
  note jsq = js_query_distinct [OF assms]
  have provided: "(''workspace_token'', v) \<in> set (ts_query ps) \<and> (''workspace_token'', v) \<in> set (js_query ps)"
    if "(''workspace_token'', PStr v) \<in> set ps"
    unfolding tsq jsq using that by force
  have urls: "fc_url (Resource_get c (basePath r) (Some ps))
              = client_baseUrl c @ basePath r @ ''?'' @ qs_toString (ts_query ps)
          \<and> map_option fc_url (js_call c r (List (Some ps)))
              = Some (client_baseUrl c @ basePath r @ ''?'' @ qs_toString (js_query ps))"
    if "(''workspace_token'', PStr v) \<in> set ps"
  proof -
    from provided [OF that] have "ts_query ps \<noteq> []" "js_query ps \<noteq> []" by auto
    then have "qs_toString (ts_query ps) \<noteq> []" "qs_toString (js_query ps) \<noteq> []"
      by (simp_all add: qs_toString_nonempty)
    then show ?thesis
      by (simp add: Resource_get_def ts_request_def js_request_def with_query_def)
  qed
  have omitted: "''workspace_token'' \<notin> fst ` set (ts_query ps) \<and> ''workspace_token'' \<notin> fst ` set (js_query ps)"
    if "''workspace_token'' \<notin> fst ` set ps \<or> (''workspace_token'', PUndefined) \<in> set ps"
  proof -
    have "(''workspace_token'', w) \<in> set ps \<Longrightarrow> w = PUndefined" for w
      using that assms by (auto simp: rev_image_eqI dest: eq_key_imp_eq_value)
    then show ?thesis
      unfolding tsq jsq by (auto simp: image_iff)
  qed
  have one_ts: "ts_query [(''workspace_token'', PStr v)] = [(''workspace_token'', v)]"
    by (simp add: ts_query_def)
  have one_js: "js_query [(''workspace_token'', PStr v)] = [(''workspace_token'', v)]"
    by (simp add: js_query_def)
  have one_str: "qs_toString [(''workspace_token'', v)] = ''workspace_token='' @ urlencode v"
    by (simp add: qs_toString_def query_components_def urlencode_workspace_token)
  have sole: "fc_url (Resource_get c (basePath r) (Some [(''workspace_token'', PStr v)]))
            = client_baseUrl c @ basePath r @ ''?workspace_token='' @ urlencode v
       \<and> map_option fc_url (js_call c r (List (Some [(''workspace_token'', PStr v)])))
            = Some (client_baseUrl c @ basePath r @ ''?workspace_token='' @ urlencode v)"
    by (simp add: Resource_get_def ts_request_def js_request_def with_query_def one_ts one_js one_str)
  have none: "fc_url (Resource_get c (basePath r) None) = client_baseUrl c @ basePath r
       \<and> map_option fc_url (js_call c r (List None)) = Some (client_baseUrl c @ basePath r)"
    by (simp add: Resource_get_def ts_request_def js_request_def)
  show ?thesis
    using provided urls omitted sole none workspace_token_component urlencode_keep
    by (intro conjI impI) blast+
qed

text \<open>The MCP tools \<open>list_cost_reports\<close> and \<open>list_segments\<close> build the query by hand:
  a non-empty token is appended as it is, an empty or absent one gives no query.\<close>

lemma mcp_workspace_qs:
  "arg args ''workspace_token'' = Some (JStr v) \<Longrightarrow> v \<noteq> [] \<Longrightarrow>
     workspace_qs args = ''?workspace_token='' @ v"
  "arg args ''workspace_token'' = Some (JStr []) \<Longrightarrow> workspace_qs args = []"
  "arg args ''workspace_token'' = None \<Longrightarrow> workspace_qs args = []"
  by (simp_all add: workspace_qs_def truthy_opt_def js_String_opt_def)

text \<open>
  C5. In the TypeScript client the \<open>list\<close> of each workspace-scoped collection
  (\<open>cost_reports\<close>, \<open>folders\<close>, \<open>segments\<close>, \<open>teams\<close>, \<open>virtual_tags\<close>) makes no request:
  with or without a \<open>workspace_token\<close>, and whatever the stack allows, the call ends in
  the RangeError of its own \<open>get\<close>, so there is no URL that could carry the token. The
  JavaScript client, on the same call, requests the base URL, the path and
  \<open>?workspace_token=\<close> with the value.
\<close>

theorem ts_list_never_requests:
  "ts_call depth c CostReports (List params) = Some (Inl (RangeError ''Maximum call stack size exceeded''))
   \<and> ts_call depth c Folders (List params) = Some (Inl (RangeError ''Maximum call stack size exceeded''))
   \<and> ts_call depth c Segments (List params) = Some (Inl (RangeError ''Maximum call stack size exceeded''))
   \<and> ts_call depth c Teams (List params) = Some (Inl (RangeError ''Maximum call stack size exceeded''))
   \<and> ts_call depth c VirtualTags (List params) = Some (Inl (RangeError ''Maximum call stack size exceeded''))
   \<and> map_option fc_url (js_call c CostReports (List (Some [(''workspace_token'', PStr v)])))
       = Some (client_baseUrl c @ ''/cost_reports?workspace_token='' @ urlencode v)"
proof -
  have js: "map_option fc_url (js_call c CostReports (List (Some [(''workspace_token'', PStr v)])))
       = Some (client_baseUrl c @ ''/cost_reports?workspace_token='' @ urlencode v)"
    by (simp add: js_request_def with_query_def js_query_def qs_toString_def query_components_def
        urlencode_workspace_token)
  show ?thesis
    using js by (simp add: ts_get_overflows)
qed

theorem ts_list_never_requests_witness:
  "ts_call 10000 (ts_CloudPulseClient \<lparr>apiToken = ''cpls_1'', baseUrl = None\<rparr>) CostReports
     (List (Some [(''workspace_token'', PStr ''wrkspc_7f3a'')]))
     = Some (Inl (RangeError ''Maximum call stack size exceeded''))
   \<and> map_option fc_url
       (js_call (js_CloudPulseClient \<lparr>apiToken = ''cpls_1'', baseUrl = None\<rparr>) CostReports
          (List (Some [(''workspace_token'', PStr ''wrkspc_7f3a'')])))
     = Some ''https://api.cloudpulse.dev/api/v2/cost_reports?workspace_token=wrkspc_7f3a''"
proof -
  have enc: "urlencode ''wrkspc_7f3a'' = ''wrkspc_7f3a''"
    by (rule urlencode_keep) (simp add: urlencoded_keep_def)
  have base: "client_baseUrl (js_CloudPulseClient \<lparr>apiToken = ''cpls_1'', baseUrl = None\<rparr>)
      = ''https://api.cloudpulse.dev/api/v2''"
    by (simp add: js_CloudPulseClient_def strip_trailing_slash_def)
  have ts: "ts_call 10000 (ts_CloudPulseClient \<lparr>apiToken = ''cpls_1'', baseUrl = None\<rparr>) CostReports
     (List (Some [(''workspace_token'', PStr ''wrkspc_7f3a'')]))
     = Some (Inl (RangeError ''Maximum call stack size exceeded''))"
    using ts_list_never_requests [of 10000 "ts_CloudPulseClient \<lparr>apiToken = ''cpls_1'', baseUrl = None\<rparr>"]
    by blast
  have js: "map_option fc_url
       (js_call (js_CloudPulseClient \<lparr>apiToken = ''cpls_1'', baseUrl = None\<rparr>) CostReports
          (List (Some [(''workspace_token'', PStr ''wrkspc_7f3a'')])))
     = Some (client_baseUrl (js_CloudPulseClient \<lparr>apiToken = ''cpls_1'', baseUrl = None\<rparr>)
             @ ''/cost_reports?workspace_token='' @ urlencode ''wrkspc_7f3a'')"
    using ts_list_never_requests [of _ "js_CloudPulseClient \<lparr>apiToken = ''cpls_1'', baseUrl = None\<rparr>"]
    by blast
  show ?thesis
    using ts js by (simp add: enc base)
qed

section \<open>The SDK clients: failure of a request\<close>

lemma ts_response_ok: "res_ok res \<Longrightarrow> ts_response (Inr res) = json_body res"
  by (simp add: ts_response_def)

lemma ts_response_not_ok: "\<not> res_ok res \<Longrightarrow> isl (ts_response (Inr res))"
  by (simp add: ts_response_def Let_def)

lemma ts_js_response: "ts_response settled = js_response settled"
  by (simp add: ts_response_def js_response_def)

lemma doRequest_response:
  assumes "\<forall>v. body = Some v \<longrightarrow> (\<exists>b. Marshal v = Inr b)"
    and "NewRequest meth (BaseURL c @ path) = None"
    and "\<forall>rq. Do rq = Inr resp"
    and "ReadAll resp = Inr data"
  shows "doRequest Marshal NewRequest Do c meth path body =
           (if StatusCode resp \<ge> 400
            then Inl (''API error '' @ show_int (StatusCode resp) @ '': '' @ data)
            else Inr data)"
proof (cases body)
  case None
  then show ?thesis using assms by (simp add: doRequest_def)
next
  case (Some v)
  then obtain b where "Marshal v = Inr b" using assms(1) by blast
  then show ?thesis using Some assms by (simp add: doRequest_def)
qed

text \<open>
  The claim C3 as it is written fails at status 300: TypeScript and JavaScript test
  \<open>res.ok\<close> and raise, Go tests \<open>StatusCode >= 400\<close> and returns the body.
\<close>

theorem sdk_status_300_counterexample:
  "ts_response (Inr \<lparr>status = 300, statusText = ''Multiple Choices'', json_body = Inr (JObj [])\<rparr>)
     = Inl (Error ''CloudPulse API error 300: Unknown error'')
   \<and> js_response (Inr \<lparr>status = 300, statusText = ''Multiple Choices'', json_body = Inr (JObj [])\<rparr>)
     = Inl (Error ''CloudPulse API error 300: Unknown error'')
   \<and> doRequest Marshal_json NewRequest_ok
        (Do_answer \<lparr>StatusCode = 300, ReadAll = Inr ''{}''\<rparr>)
        (NewClient ''cpls_1'') ''GET'' ''/workspaces'' None
     = Inr ''{}''"
  by (simp add: ts_response_def js_response_def res_ok_def error_payload_def truthy_opt_def
      doRequest_def Marshal_json_def NewRequest_ok_def Do_answer_def show_nat.simps digit_char_def)

text \<open>
  C3, amended. When the response arrives and its body is JSON, the TypeScript and the
  JavaScript \<open>request\<close> raise exactly when the status is outside 200..299 and return the
  parsed body otherwise, and they agree on every response. When nothing fails before
  the status test (marshalling, building and sending the request, reading the body),
  Go's \<open>doRequest\<close> returns an error exactly when the status is 400 or more and the raw
  bytes of the body otherwise. The three agree on whether a status is a failure for the
  statuses in 200..299 and from 400 on; below 200 and in 300..399 TypeScript and
  JavaScript raise and Go does not.
\<close>

theorem sdk_failure_statuses:
  assumes "json_body res = Inr j"
    and "\<forall>v. body = Some v \<longrightarrow> (\<exists>b. Marshal v = Inr b)"
    and "NewRequest meth (BaseURL c @ path) = None"
    and "\<forall>rq. Do rq = Inr resp"
    and "ReadAll resp = Inr data"
    and "StatusCode resp = int (status res)"
  shows "ts_response (Inr res) = js_response (Inr res)
       \<and> (isl (ts_response (Inr res)) \<longleftrightarrow> \<not> (200 \<le> status res \<and> status res \<le> 299))
       \<and> (200 \<le> status res \<and> status res \<le> 299 \<longrightarrow> ts_response (Inr res) = Inr j)
       \<and> (isl (doRequest Marshal NewRequest Do c meth path body) \<longleftrightarrow> 400 \<le> status res)
       \<and> (status res < 400 \<longrightarrow> doRequest Marshal NewRequest Do c meth path body = Inr data)
       \<and> ((200 \<le> status res \<and> status res \<le> 299) \<or> 400 \<le> status res \<longrightarrow>
            (isl (ts_response (Inr res)) \<longleftrightarrow> isl (doRequest Marshal NewRequest Do c meth path body)))
       \<and> (status res < 200 \<or> (300 \<le> status res \<and> status res < 400) \<longrightarrow>
            isl (ts_response (Inr res)) \<and> \<not> isl (doRequest Marshal NewRequest Do c meth path body))"
proof -
  have ts: "isl (ts_response (Inr res)) \<longleftrightarrow> \<not> res_ok res"
    using ts_response_ok [of res] ts_response_not_ok [of res] assms(1) by auto
  have ts_ok: "res_ok res \<longrightarrow> ts_response (Inr res) = Inr j"
    using ts_response_ok [of res] assms(1) by simp
  have go: "doRequest Marshal NewRequest Do c meth path body =
           (if 400 \<le> status res
            then Inl (''API error '' @ show_int (StatusCode resp) @ '': '' @ data)
            else Inr data)"
    using doRequest_response [where body = body and Marshal = Marshal and NewRequest = NewRequest
        and Do = Do and c = c and meth = meth and path = path and resp = resp and data = data]
      assms(2-6) by simp
  show ?thesis
    unfolding go using ts ts_ok ts_js_response [of "Inr res"]
    by (auto simp: res_ok_def)
qed

theorem sdk_failure_statuses_witness:
  "js_response (Inr \<lparr>status = 404, statusText = ''Not Found'',
       json_body = Inr (JObj [(''detail'', JStr ''No such workspace'')])\<rparr>)
     = Inl (Error ''CloudPulse API error 404: No such workspace'')
   \<and> isl (doRequest Marshal_json NewRequest_ok
        (Do_answer \<lparr>StatusCode = 404, ReadAll = Inr ''{}''\<rparr>)
        (NewClient ''cpls_1'') ''GET'' ''/workspaces/w1'' None)"
proof -
  let ?res = "\<lparr>status = 404, statusText = ''Not Found'',
       json_body = Inr (JObj [(''detail'', JStr ''No such workspace'')])\<rparr>"
  let ?resp = "\<lparr>StatusCode = 404, ReadAll = Inr ''{}''\<rparr>"
  have ts: "ts_response (Inr ?res) = Inl (Error ''CloudPulse API error 404: No such workspace'')"
    by (simp add: ts_response_def res_ok_def error_payload_def truthy_opt_def js_String_opt_def
        show_nat.simps digit_char_def)
  have h1: "json_body ?res = Inr (JObj [(''detail'', JStr ''No such workspace'')])"
    by simp
  have h2: "\<forall>v. (None :: json option) = Some v \<longrightarrow> (\<exists>b. Marshal_json v = Inr b)"
    by simp
  have h3: "NewRequest_ok ''GET'' (BaseURL (NewClient ''cpls_1'') @ ''/workspaces/w1'') = None"
    by (simp add: NewRequest_ok_def)
  have h4: "\<forall>rq. Do_answer ?resp rq = Inr ?resp"
    by (simp add: Do_answer_def)
  have h5: "ReadAll ?resp = Inr ''{}''"
    by simp
  have h6: "StatusCode ?resp = int (status ?res)"
    by simp
  show ?thesis
    using sdk_failure_statuses [where res = "?res" and body = "None :: json option"
        and Marshal = Marshal_json and NewRequest = NewRequest_ok
        and Do = "Do_answer ?resp" and c = "NewClient ''cpls_1''" and meth = "''GET''"
        and path = "''/workspaces/w1''" and resp = "?resp" and data = "''{}''", OF h1 h2 h3 h4 h5 h6]
      ts by simp
qed

section \<open>Quoting a string in JSON loses nothing\<close>







lemma quote_plain:
  "\<forall>c \<in> set s. c \<noteq> CHR 0x22 \<and> c \<noteq> CHR 0x5C \<and> \<not> (of_char c :: nat) < 32 \<Longrightarrow>
     QuoteJSONString s = CHR 0x22 # s @ [CHR 0x22]"
proof -
  assume a: "\<forall>c \<in> set s. c \<noteq> CHR 0x22 \<and> c \<noteq> CHR 0x5C \<and> \<not> (of_char c :: nat) < 32"
  have "c \<noteq> CHR 0x22 \<and> c \<noteq> CHR 0x5C \<and> \<not> (of_char c :: nat) < 32 \<Longrightarrow> quote_char c = [c]" for c
    by (auto simp: quote_char_def)
  then have "concat (map quote_char s) = s"
    using a by (induction s) simp_all
  then show ?thesis by (simp add: QuoteJSONString_def)
qed

section \<open>CQL filters pass through the client layer\<close>



lemma create_cost_report_call:
  "tool_switch fetch env ''create_cost_report'' (Some fs) =
     map_sum id Inr
       (apiRequest_settled
          (fetch \<lparr>fc_url = API_BASE env @ ''/api/v2/cost_reports'',
                  fc_method = Some ''POST'',
                  fc_headers = [(''Authorization'', ''Bearer '' @ API_TOKEN env),
                                (''Content-Type'', ''application/json'')],
                  fc_body = Some (JSON_stringify (JObj fs) [] [])\<rparr>))"
  by (simp add: tool_switch_def tool_request_def apiRequest_def apiRequest_call_def
      args_value_def request_body_def)


text \<open>A filter with double quotes, as it is sent.\<close>

lemma cql_example:
  "fc_body (validateCQL None (''tags.env = '' @ [CHR 0x22] @ ''prod'' @ [CHR 0x22]))
     = Some ([CHR ''{'', CHR 0x22] @ ''filter'' @ [CHR 0x22, CHR '':'', CHR 0x22] @ ''tags.env = ''
             @ [CHR 0x5C, CHR 0x22] @ ''prod'' @ [CHR 0x5C, CHR 0x22, CHR 0x22, CHR ''}''])"
  by (simp add: validateCQL_def request_def QuoteJSONString_def quote_char_def)

section \<open>The CallTool handler of the MCP server\<close>

lemma tool_request_None:
  "tool_request name args = None \<longleftrightarrow>
     name \<notin> set [''list_workspaces'', ''list_cost_reports'', ''get_cost_report'',
                  ''create_cost_report'', ''list_segments'']"
  by (simp add: tool_request_def)

lemma error_text_message: "message e = Some msg \<Longrightarrow> error_text e = msg"
  by (cases e) simp_all

lemma call_tool_unknown:
  "tool_request name args = None \<Longrightarrow>
     call_tool fetch env name args =
       Inr \<lparr>content = [\<lparr>item_type = ''text'', item_text = ''Unknown tool: '' @ name\<rparr>],
            isError = Some True\<rparr>"
  by (simp add: call_tool_def tool_switch_def)

lemma call_tool_failure:
  "tool_request name args = Some (m, p, b) \<Longrightarrow> apiRequest fetch env m p b = Inl e \<Longrightarrow>
     call_tool fetch env name args =
       Inr \<lparr>content = [\<lparr>item_type = ''text'', item_text = ''Error: '' @ error_text e\<rparr>],
            isError = Some True\<rparr>"
  by (simp add: call_tool_def tool_switch_def)

lemma call_tool_success:
  "tool_request name args = Some (m, p, b) \<Longrightarrow> apiRequest fetch env m p b = Inr j \<Longrightarrow>
     call_tool fetch env name args =
       Inr \<lparr>content = [\<lparr>item_type = ''text'', item_text = JSON_stringify j ''  '' []\<rparr>],
            isError = None\<rparr>"
  by (simp add: call_tool_def tool_switch_def)

lemma call_tool_returns: "\<exists>r. call_tool fetch env name args = Inr r"
  by (simp add: call_tool_def split: sum.splits)

text \<open>
  The claim C10 as it is written fails on the text of a failed call: the handler puts
  \<open>Error: \<close> before the message of the error, so the text is not the message.
\<close>

theorem call_tool_error_text_counterexample:
  "apiRequest (answer \<lparr>status = 404, statusText = ''Not Found'',
        json_body = Inr (JObj [(''detail'', JStr ''Report not found'')])\<rparr>)
     \<lparr>CLOUDPULSE_API_URL = None, CLOUDPULSE_API_TOKEN = Some ''cpls_1''\<rparr>
     ''GET'' ''/cost_reports/rprt_1'' None
   = Inl (Error ''API error 404: Report not found'')
   \<and> message (Error ''API error 404: Report not found'') = Some ''API error 404: Report not found''
   \<and> call_tool (answer \<lparr>status = 404, statusText = ''Not Found'',
        json_body = Inr (JObj [(''detail'', JStr ''Report not found'')])\<rparr>)
     \<lparr>CLOUDPULSE_API_URL = None, CLOUDPULSE_API_TOKEN = Some ''cpls_1''\<rparr>
     ''get_cost_report'' (Some [(''token'', JStr ''rprt_1'')])
   = Inr \<lparr>content = [\<lparr>item_type = ''text'', item_text = ''Error: API error 404: Report not found''\<rparr>],
          isError = Some True\<rparr>
   \<and> ''Error: API error 404: Report not found'' \<noteq> ''API error 404: Report not found''"
  by (simp add: call_tool_def tool_switch_def tool_request_def apiRequest_def apiRequest_settled_def
      answer_def res_ok_def error_payload_def js_String_opt_def arg_def show_nat.simps digit_char_def)

text \<open>
  C10, amended. For every CallTool request the handler returns a result object and no
  exception leaves it. A tool name that is not one of the five known names yields
  \<open>isError\<close> true with the text \<open>Unknown tool: \<close> and the name. A failure of the tool's
  \<open>apiRequest\<close> yields \<open>isError\<close> true with the text \<open>Error: \<close> followed by the message of
  the error. A successful call yields, with no \<open>isError\<close>, the text
  \<open>JSON.stringify(result, null, 2)\<close> of the API result.
\<close>

theorem call_tool_results:
  "(\<exists>r. call_tool fetch env name args = Inr r)
   \<and> (name \<notin> set [''list_workspaces'', ''list_cost_reports'', ''get_cost_report'',
                   ''create_cost_report'', ''list_segments''] \<longrightarrow>
        call_tool fetch env name args =
          Inr \<lparr>content = [\<lparr>item_type = ''text'', item_text = ''Unknown tool: '' @ name\<rparr>],
               isError = Some True\<rparr>)
   \<and> (\<forall>m p b e. tool_request name args = Some (m, p, b) \<and> apiRequest fetch env m p b = Inl e \<longrightarrow>
        call_tool fetch env name args =
          Inr \<lparr>content = [\<lparr>item_type = ''text'', item_text = ''Error: '' @ error_text e\<rparr>],
               isError = Some True\<rparr>
        \<and> (\<forall>msg. message e = Some msg \<longrightarrow> error_text e = msg))
   \<and> (\<forall>m p b j. tool_request name args = Some (m, p, b) \<and> apiRequest fetch env m p b = Inr j \<longrightarrow>
        call_tool fetch env name args =
          Inr \<lparr>content = [\<lparr>item_type = ''text'', item_text = JSON_stringify j ''  '' []\<rparr>],
               isError = None\<rparr>)"
proof -
  have unknown: "name \<notin> set [''list_workspaces'', ''list_cost_reports'', ''get_cost_report'',
                   ''create_cost_report'', ''list_segments''] \<longrightarrow>
        call_tool fetch env name args =
          Inr \<lparr>content = [\<lparr>item_type = ''text'', item_text = ''Unknown tool: '' @ name\<rparr>],
               isError = Some True\<rparr>"
    using call_tool_unknown [of name args fetch env] tool_request_None [of name args] by simp
  have failure: "\<forall>m p b e. tool_request name args = Some (m, p, b) \<and> apiRequest fetch env m p b = Inl e \<longrightarrow>
        call_tool fetch env name args =
          Inr \<lparr>content = [\<lparr>item_type = ''text'', item_text = ''Error: '' @ error_text e\<rparr>],
               isError = Some True\<rparr>
        \<and> (\<forall>msg. message e = Some msg \<longrightarrow> error_text e = msg)"
    by (simp add: call_tool_failure error_text_message)
  have success: "\<forall>m p b j. tool_request name args = Some (m, p, b) \<and> apiRequest fetch env m p b = Inr j \<longrightarrow>
        call_tool fetch env name args =
          Inr \<lparr>content = [\<lparr>item_type = ''text'', item_text = JSON_stringify j ''  '' []\<rparr>],
               isError = None\<rparr>"
    by (simp add: call_tool_success)
  show ?thesis
    using call_tool_returns [of fetch env name args] unknown failure success
    by (intro conjI)
qed

theorem call_tool_results_witness:
  "call_tool (answer \<lparr>status = 200, statusText = ''OK'',
       json_body = Inr (JObj [(''workspaces'', JArr [])])\<rparr>)
     \<lparr>CLOUDPULSE_API_URL = None, CLOUDPULSE_API_TOKEN = Some ''cpls_1''\<rparr> ''list_workspaces'' None
   = Inr \<lparr>content = [\<lparr>item_type = ''text'',
                      item_text = ''{'' @ [CHR 0x0A] @ ''  '' @ [CHR 0x22] @ ''workspaces''
                                   @ [CHR 0x22] @ '': []'' @ [CHR 0x0A] @ ''}''\<rparr>],
          isError = None\<rparr>
   \<and> call_tool (answer \<lparr>status = 200, statusText = ''OK'',
       json_body = Inr (JObj [(''workspaces'', JArr [])])\<rparr>)
     \<lparr>CLOUDPULSE_API_URL = None, CLOUDPULSE_API_TOKEN = Some ''cpls_1''\<rparr> ''drop_everything'' None
   = Inr \<lparr>content = [\<lparr>item_type = ''text'', item_text = ''Unknown tool: drop_everything''\<rparr>],
          isError = Some True\<rparr>"
proof -
  let ?fetch = "answer \<lparr>status = 200, statusText = ''OK'',
       json_body = Inr (JObj [(''workspaces'', JArr [])])\<rparr>"
  let ?env = "\<lparr>CLOUDPULSE_API_URL = None, CLOUDPULSE_API_TOKEN = Some ''cpls_1''\<rparr>"
  have rq: "tool_request ''list_workspaces'' None = Some (''GET'', ''/workspaces'', None)"
    by (simp add: tool_request_def)
  have api: "apiRequest ?fetch ?env ''GET'' ''/workspaces'' None = Inr (JObj [(''workspaces'', JArr [])])"
    by (simp add: apiRequest_def apiRequest_settled_def answer_def res_ok_def)
  have unknown: "''drop_everything'' \<notin> set [''list_workspaces'', ''list_cost_reports'',
      ''get_cost_report'', ''create_cost_report'', ''list_segments'']"
    by simp
  from call_tool_results [of ?fetch ?env "''list_workspaces''" None]
  have "call_tool ?fetch ?env ''list_workspaces'' None =
          Inr \<lparr>content = [\<lparr>item_type = ''text'',
                 item_text = JSON_stringify (JObj [(''workspaces'', JArr [])]) ''  '' []\<rparr>],
               isError = None\<rparr>"
    using rq api by blast
  moreover from call_tool_results [of ?fetch ?env "''drop_everything''" None]
  have "call_tool ?fetch ?env ''drop_everything'' None =
          Inr \<lparr>content = [\<lparr>item_type = ''text'', item_text = ''Unknown tool: '' @ ''drop_everything''\<rparr>],
               isError = Some True\<rparr>"
    using unknown by blast
  ultimately show ?thesis
    by (simp add: QuoteJSONString_def quote_char_def)
qed

section \<open>AuthProvider: authentication flag, logout and failed validation\<close>

lemma truthy_user_inv: "user_inv s \<Longrightarrow> truthy (auth_user s) \<longleftrightarrow> auth_user s \<noteq> JNull"
  by (cases "auth_user s") (auto simp: user_inv_def)

lemma user_inv_init: "user_inv (AuthProvider_init stored)"
  by (simp add: user_inv_def AuthProvider_init_def)

lemma user_inv_step:
  assumes "user_inv s" "user_payload_ok e"
  shows "user_inv (auth_step s e)"
proof (cases e)
  case EffectRun
  then show ?thesis using assms(1) by (simp add: user_inv_def split: option.splits)
next
  case (MeSettled settled)
  then show ?thesis
    using assms by (auto simp: user_inv_def validation_failed_def split: sum.splits)
next
  case (LoginOk t)
  then show ?thesis using assms(1) by (simp add: user_inv_def)
next
  case Logout
  then show ?thesis by (simp add: user_inv_def logout_def)
qed

lemma user_inv_run:
  "user_inv s \<Longrightarrow> \<forall>e \<in> set es. user_payload_ok e \<Longrightarrow> user_inv (auth_run s es)"
  unfolding auth_run_def
  by (induction es arbitrary: s) (simp_all add: user_inv_step)

lemma logout_state:
  "auth_user (logout s) = JNull \<and> auth_token (logout s) = None
   \<and> localStorage (logout s) ''cloudpulse_token'' = None"
  by (simp add: logout_def)

lemma validation_failed_state:
  "validate_me settled = Inl e \<Longrightarrow>
     auth_user (auth_step s (MeSettled settled)) = JNull
   \<and> auth_token (auth_step s (MeSettled settled)) = None
   \<and> localStorage (auth_step s (MeSettled settled)) ''cloudpulse_token'' = None
   \<and> \<not> auth_loading (auth_step s (MeSettled settled))"
  by (simp add: validation_failed_def)

lemma validate_me_fails:
  "isl (validate_me settled) \<longleftrightarrow>
     (case settled of Inl e \<Rightarrow> True | Inr res \<Rightarrow> \<not> res_ok res \<or> isl (json_body res))"
  by (simp add: validate_me_def split: sum.splits)

text \<open>
  The claim C6 as it is written fails when a validation succeeds with a body that is
  falsy and not \<open>null\<close>: after \<open>/api/v1/auth/me\<close> answers 200 with the body \<open>0\<close>, the user is
  0, which is not \<open>null\<close>, and \<open>isAuthenticated\<close>, computed as \<open>!!user\<close>, is false.
\<close>

theorem auth_falsy_user_counterexample:
  "ctx_user (render (auth_run (AuthProvider_init (Map.empty(''cloudpulse_token'' \<mapsto> ''tok_1'')))
       [EffectRun, MeSettled (Inr \<lparr>status = 200, statusText = ''OK'', json_body = Inr (JNum 0)\<rparr>)]))
     = JNum 0
   \<and> JNum 0 \<noteq> JNull
   \<and> \<not> isAuthenticated (render (auth_run (AuthProvider_init (Map.empty(''cloudpulse_token'' \<mapsto> ''tok_1'')))
       [EffectRun, MeSettled (Inr \<lparr>status = 200, statusText = ''OK'', json_body = Inr (JNum 0)\<rparr>)]))"
  by (simp add: auth_run_def AuthProvider_init_def render_def validate_me_def res_ok_def)

text \<open>
  C6, amended. In every rendered state \<open>isAuthenticated\<close> is the truthiness of \<open>user\<close>
  (\<open>!!user\<close>); in every state reached from the initial one by events in which each
  successful validation carries a user object or \<open>null\<close>, this is the same as \<open>user\<close> not
  being \<open>null\<close>. From any state, \<open>logout()\<close> and a failed validation of the stored token
  against \<open>/api/v1/auth/me\<close> (the request rejected, a status outside 200..299, or a body
  that is not JSON) lead to \<open>user = null\<close>, \<open>token = null\<close> and the key
  \<open>cloudpulse_token\<close> removed from \<open>localStorage\<close>.
\<close>

theorem auth_provider_states:
  assumes "\<forall>e \<in> set es. user_payload_ok e"
  shows "isAuthenticated (render s) = truthy (ctx_user (render s))
       \<and> (isAuthenticated (render (auth_run (AuthProvider_init stored) es))
            \<longleftrightarrow> ctx_user (render (auth_run (AuthProvider_init stored) es)) \<noteq> JNull)
       \<and> ctx_user (render (auth_step s Logout)) = JNull
       \<and> ctx_token (render (auth_step s Logout)) = None
       \<and> localStorage (auth_step s Logout) ''cloudpulse_token'' = None
       \<and> \<not> isAuthenticated (render (auth_step s Logout))
       \<and> (isl (validate_me settled) \<longrightarrow>
            ctx_user (render (auth_step s (MeSettled settled))) = JNull
          \<and> ctx_token (render (auth_step s (MeSettled settled))) = None
          \<and> localStorage (auth_step s (MeSettled settled)) ''cloudpulse_token'' = None
          \<and> \<not> isAuthenticated (render (auth_step s (MeSettled settled))))
       \<and> (isl (validate_me settled) \<longleftrightarrow>
            (case settled of Inl e \<Rightarrow> True | Inr res \<Rightarrow> \<not> res_ok res \<or> isl (json_body res)))"
proof -
  have inv: "user_inv (auth_run (AuthProvider_init stored) es)"
    using assms by (intro user_inv_run user_inv_init)
  have reach: "isAuthenticated (render (auth_run (AuthProvider_init stored) es))
            \<longleftrightarrow> ctx_user (render (auth_run (AuthProvider_init stored) es)) \<noteq> JNull"
    using truthy_user_inv [OF inv] by (simp add: render_def)
  have out: "ctx_user (render (auth_step s Logout)) = JNull
       \<and> ctx_token (render (auth_step s Logout)) = None
       \<and> localStorage (auth_step s Logout) ''cloudpulse_token'' = None
       \<and> \<not> isAuthenticated (render (auth_step s Logout))"
    using logout_state [of s] by (simp add: render_def)
  have failed: "isl (validate_me settled) \<longrightarrow>
            ctx_user (render (auth_step s (MeSettled settled))) = JNull
          \<and> ctx_token (render (auth_step s (MeSettled settled))) = None
          \<and> localStorage (auth_step s (MeSettled settled)) ''cloudpulse_token'' = None
          \<and> \<not> isAuthenticated (render (auth_step s (MeSettled settled)))"
  proof
    assume "isl (validate_me settled)"
    then obtain e where "validate_me settled = Inl e" by (cases "validate_me settled") auto
    from validation_failed_state [OF this, of s] show "ctx_user (render (auth_step s (MeSettled settled))) = JNull
          \<and> ctx_token (render (auth_step s (MeSettled settled))) = None
          \<and> localStorage (auth_step s (MeSettled settled)) ''cloudpulse_token'' = None
          \<and> \<not> isAuthenticated (render (auth_step s (MeSettled settled)))"
      by (simp add: render_def)
  qed
  have here: "isAuthenticated (render s) = truthy (ctx_user (render s))"
    by (simp add: render_def)
  show ?thesis
    using here reach out failed validate_me_fails [of settled] by blast
qed

theorem auth_provider_states_witness:
  "isAuthenticated (render (auth_run (AuthProvider_init (Map.empty(''cloudpulse_token'' \<mapsto> ''tok_1'')))
       [EffectRun, MeSettled (Inr \<lparr>status = 200, statusText = ''OK'',
           json_body = Inr (JObj [(''email'', JStr ''a@b.c'')])\<rparr>)]))
   \<and> ctx_user (render (auth_run (AuthProvider_init (Map.empty(''cloudpulse_token'' \<mapsto> ''tok_1'')))
       [EffectRun, MeSettled (Inr \<lparr>status = 200, statusText = ''OK'',
           json_body = Inr (JObj [(''email'', JStr ''a@b.c'')])\<rparr>)]))
      = JObj [(''email'', JStr ''a@b.c'')]
   \<and> ctx_token (render (auth_step
        (auth_run (AuthProvider_init (Map.empty(''cloudpulse_token'' \<mapsto> ''tok_1''))) [EffectRun])
        (MeSettled (Inr \<lparr>status = 401, statusText = ''Unauthorized'',
           json_body = Inr (JObj [(''detail'', JStr ''Invalid token'')])\<rparr>)))) = None"
proof -
  let ?ok = "MeSettled (Inr \<lparr>status = 200, statusText = ''OK'',
           json_body = Inr (JObj [(''email'', JStr ''a@b.c'')])\<rparr>)"
  let ?bad = "Inr \<lparr>status = 401, statusText = ''Unauthorized'',
           json_body = Inr (JObj [(''detail'', JStr ''Invalid token'')])\<rparr> :: thrown + response"
  let ?init = "AuthProvider_init (Map.empty(''cloudpulse_token'' \<mapsto> ''tok_1''))"
  have ok: "\<forall>e \<in> set [EffectRun, ?ok]. user_payload_ok e"
    by (simp add: validate_me_def res_ok_def)
  have user: "ctx_user (render (auth_run ?init [EffectRun, ?ok])) = JObj [(''email'', JStr ''a@b.c'')]"
    by (simp add: auth_run_def AuthProvider_init_def render_def validate_me_def res_ok_def)
  have bad: "isl (validate_me ?bad)"
    by (simp add: validate_me_def res_ok_def)
  show ?thesis
    using auth_provider_states [OF ok, of "auth_run ?init [EffectRun]" "Map.empty(''cloudpulse_token'' \<mapsto> ''tok_1'')" ?bad]
      user bad
    by simp
qed

section \<open>Acknowledging an anomaly\<close>

lemma acknowledge_length: "length (acknowledge i prev) = length prev"
  by (simp add: acknowledge_def)

lemma acknowledge_nth:
  "k < length prev \<Longrightarrow>
     acknowledge i prev ! k =
       (if anomaly_id (prev ! k) = i then (prev ! k)\<lparr>acknowledged := True\<rparr> else prev ! k)"
  by (simp add: acknowledge_def)

lemma acknowledge_ids: "map anomaly_id (acknowledge i prev) = map anomaly_id prev"
  by (simp add: acknowledge_def)

text \<open>
  C9. Acknowledging an anomaly keeps the length and the order of the list (position by
  position), leaves every anomaly with another id as it is, and in an anomaly with the
  given id changes the field \<open>acknowledged\<close> to true and no other field (the extension
  of the record included). When the API call fails nothing changes at all.
\<close>

theorem handleAcknowledge_frame:
  "length (handleAcknowledge (Inr ok) i prev) = length prev
   \<and> map anomaly_id (handleAcknowledge (Inr ok) i prev) = map anomaly_id prev
   \<and> (\<forall>k < length prev.
        (anomaly_id (prev ! k) \<noteq> i \<longrightarrow> handleAcknowledge (Inr ok) i prev ! k = prev ! k)
      \<and> (anomaly_id (prev ! k) = i \<longrightarrow>
           handleAcknowledge (Inr ok) i prev ! k = (prev ! k)\<lparr>acknowledged := True\<rparr>
         \<and> acknowledged (handleAcknowledge (Inr ok) i prev ! k)
         \<and> anomaly_id (handleAcknowledge (Inr ok) i prev ! k) = anomaly_id (prev ! k)
         \<and> service (handleAcknowledge (Inr ok) i prev ! k) = service (prev ! k)
         \<and> severity (handleAcknowledge (Inr ok) i prev ! k) = severity (prev ! k)
         \<and> expected_amount (handleAcknowledge (Inr ok) i prev ! k) = expected_amount (prev ! k)
         \<and> actual_amount (handleAcknowledge (Inr ok) i prev ! k) = actual_amount (prev ! k)
         \<and> anomaly.more (handleAcknowledge (Inr ok) i prev ! k) = anomaly.more (prev ! k)))
   \<and> handleAcknowledge (Inl err) i prev = prev"
  by (simp add: handleAcknowledge_def acknowledge_length acknowledge_nth acknowledge_ids)

theorem handleAcknowledge_frame_witness:
  "handleAcknowledge (Inr ()) (2::nat)
     [\<lparr>anomaly_id = 1, service = ''EC2'', severity = ''critical'', expected_amount = 10,
        actual_amount = 30, acknowledged = False\<rparr>,
      \<lparr>anomaly_id = 2, service = ''S3'', severity = ''info'', expected_amount = 4,
        actual_amount = 5, acknowledged = False\<rparr>] ! 1
   = \<lparr>anomaly_id = 2, service = ''S3'', severity = ''info'', expected_amount = 4,
        actual_amount = 5, acknowledged = True\<rparr>
   \<and> handleAcknowledge (Inr ()) (2::nat)
     [\<lparr>anomaly_id = 1, service = ''EC2'', severity = ''critical'', expected_amount = 10,
        actual_amount = 30, acknowledged = False\<rparr>,
      \<lparr>anomaly_id = 2, service = ''S3'', severity = ''info'', expected_amount = 4,
        actual_amount = 5, acknowledged = False\<rparr>] ! 0
   = \<lparr>anomaly_id = 1, service = ''EC2'', severity = ''critical'', expected_amount = 10,
        actual_amount = 30, acknowledged = False\<rparr>"
proof -
  let ?prev = "[\<lparr>anomaly_id = 1::nat, service = ''EC2'', severity = ''critical'',
        expected_amount = 10, actual_amount = 30, acknowledged = False\<rparr>,
      \<lparr>anomaly_id = 2, service = ''S3'', severity = ''info'', expected_amount = 4,
        actual_amount = 5, acknowledged = False\<rparr>]"
  let ?new = "handleAcknowledge (Inr ()) (2::nat) ?prev"
  have all: "\<forall>k < length ?prev.
        (anomaly_id (?prev ! k) \<noteq> 2 \<longrightarrow> ?new ! k = ?prev ! k)
      \<and> (anomaly_id (?prev ! k) = 2 \<longrightarrow> ?new ! k = (?prev ! k)\<lparr>acknowledged := True\<rparr>)"
    using handleAcknowledge_frame [of "()" 2 ?prev] by blast
  have k0: "?new ! 0 = ?prev ! 0"
    using all [rule_format, of 0] by simp
  have k1: "?new ! 1 = (?prev ! 1)\<lparr>acknowledged := True\<rparr>"
    using all [rule_format, of 1] by simp
  show ?thesis using k0 k1 by simp
qed


section \<open>Alert thresholds\<close>



end
